theory Spec2Isabelle
  imports Main "HOL-Library.Word" "HOL-Library.Multiset"
begin

section \<open>The replication controller (package controller)\<close>

text \<open>
  The embedded program is the Go package \<open>controller\<close> that follows the pod registry
  helpers in \<open>src/pkg/registry/pod/rest.go\<close>: \<open>RealPodControl\<close>,
  \<open>ReplicationManager\<close>, \<open>watchControllers\<close>, \<open>filterActivePods\<close>,
  \<open>syncReplicationController\<close> and \<open>synchronize\<close>.

  The cluster API client, the Go runtime's choice of goroutine order and the channels the
  watch loop selects on are the environment. Every call on the client is appended to a
  request log, every \<open>glog.Errorf\<close> line to an error log, and the client's answers are
  functions of the state at the time of the call, so that any pattern of failing calls is
  an instance. Go maps are references: the label map of a pod template lives in a store
  of map objects and the struct holds its address.
\<close>

subsection \<open>Data of package api\<close>

text \<open>The value of Go's \<open>error\<close> interface, and the run-time panics this code can raise.\<close>

datatype error = Error string

datatype panic = IndexOutOfRange | NilFunc

type_synonym label_map = "string \<rightharpoonup> string"

type_synonym map_ref = nat

type_synonym uint64 = "64 word"

text \<open>
  Modelled from the spec: \<open>api.Context\<close>, \<open>api.NewContext\<close> and
  \<open>api.WithNamespace\<close> are declared in pkg/api, outside src/. A context carries at most
  the namespace that scopes a request (``scoped to spec's namespace'').
\<close>

datatype Context = Context (ctx_namespace: "string option")

definition NewContext :: Context where
  "NewContext = Context None"

definition WithNamespace :: "Context \<Rightarrow> string \<Rightarrow> Context" where
  "WithNamespace parent ns = Context (Some ns)"

text \<open>
  Modelled from the spec: \<open>api.PodCondition\<close> is a Go string type declared in pkg/api,
  and \<open>api.PodTerminated\<close> is its constant for a terminal unit.
\<close>

type_synonym PodCondition = string

definition PodTerminated :: PodCondition where
  "PodTerminated = ''Terminated''"

text \<open>
  \<open>api.Pod\<close>, with the fields this package reads or writes. The pod specification is
  only copied, never inspected, so its type is the parameter \<open>'ps\<close>. A \<open>nil\<close> label
  map is \<open>None\<close>.
\<close>

record PodStatus =
  Condition :: PodCondition

record 'ps Pod =
  Pod_ID :: string
  Pod_Labels :: "map_ref option"
  Pod_Spec :: 'ps
  Pod_Status :: PodStatus

text \<open>
  \<open>api.ReplicationController\<close>. \<open>Replicas\<close> is a Go \<open>int\<close>, and
  \<open>len(filteredList) - Replicas\<close> is computed in the integers below. Go's difference
  is the same number unless it leaves the range of \<open>int\<close>, which needs a target below
  \<open>len(filteredList) - MaxInt\<close>; no property below is about such a target.
  \<open>ResourceVersion\<close> is a \<open>uint64\<close> and wraps around.
\<close>

record 'ps PodTemplateSpec =
  Template_Labels :: "map_ref option"
  Template_Spec :: 'ps

record 'ps ReplicationControllerSpec =
  Replicas :: int
  Selector :: label_map
  PodTemplate :: "'ps PodTemplateSpec"

record 'ps ReplicationController =
  ID :: string
  Namespace :: string
  ResourceVersion :: uint64
  Spec :: "'ps ReplicationControllerSpec"

text \<open>
  \<open>watch.Event\<close>: the event kind and a \<open>runtime.Object\<close>, of which the loop only asks
  whether it is a \<open>*api.ReplicationController\<close>. Any other object is kept by the name
  of its kind.
\<close>

datatype EventType = Added | Modified | Deleted

datatype 'ps Object =
  ReplicationControllerObject "'ps ReplicationController"
| OtherObject string

record 'ps Event =
  Type :: EventType
  Object :: "'ps Object"

subsection \<open>The environment: store, request log, error log, client\<close>

datatype 'ps request =
  ListPodsReq Context label_map
| CreatePodReq Context "'ps Pod"
| DeletePodReq Context string
| WatchReplicationControllersReq Context uint64
| ListReplicationControllersReq Context

datatype logline =
  CreateReplicaFailed error
| UnexpectedFailureToWatch error
| UnexpectedObject string
| SynchronizationError error
| ErrorSynchronizing error

record 'ps world =
  maps :: "map_ref \<Rightarrow> label_map"
  requests :: "'ps request list"
  glog :: "logline list"

text \<open>
  \<open>client.Interface\<close> is external: its answers are parameters. Each answer may depend
  on the whole state at the time of the call (and so on the calls made before it).
\<close>

record 'ps Interface =
  ListPods_answer :: "'ps world \<Rightarrow> Context \<Rightarrow> label_map \<Rightarrow> error + 'ps Pod list"
  CreatePod_answer :: "'ps world \<Rightarrow> Context \<Rightarrow> 'ps Pod \<Rightarrow> error option"
  DeletePod_answer :: "'ps world \<Rightarrow> Context \<Rightarrow> string \<Rightarrow> error option"
  WatchReplicationControllers_answer :: "'ps world \<Rightarrow> Context \<Rightarrow> uint64 \<Rightarrow> error option"
  ListReplicationControllers_answer ::
    "'ps world \<Rightarrow> Context \<Rightarrow> error + 'ps ReplicationController list"

definition issue :: "'ps request \<Rightarrow> 'ps world \<Rightarrow> 'ps world" where
  "issue r w = w\<lparr>requests := requests w @ [r]\<rparr>"

definition Errorf :: "logline \<Rightarrow> 'ps world \<Rightarrow> 'ps world" where
  "Errorf l w = w\<lparr>glog := glog w @ [l]\<rparr>"

definition ListPods ::
  "'ps Interface \<Rightarrow> Context \<Rightarrow> label_map \<Rightarrow> 'ps world \<Rightarrow> (error + 'ps Pod list) \<times> 'ps world" where
  "ListPods c ctx s w = (ListPods_answer c w ctx s, issue (ListPodsReq ctx s) w)"

definition CreatePod ::
  "'ps Interface \<Rightarrow> Context \<Rightarrow> 'ps Pod \<Rightarrow> 'ps world \<Rightarrow> error option \<times> 'ps world" where
  "CreatePod c ctx pod w = (CreatePod_answer c w ctx pod, issue (CreatePodReq ctx pod) w)"

definition DeletePod ::
  "'ps Interface \<Rightarrow> Context \<Rightarrow> string \<Rightarrow> 'ps world \<Rightarrow> error option \<times> 'ps world" where
  "DeletePod c ctx podID w = (DeletePod_answer c w ctx podID, issue (DeletePodReq ctx podID) w)"

definition WatchReplicationControllers ::
  "'ps Interface \<Rightarrow> Context \<Rightarrow> uint64 \<Rightarrow> 'ps world \<Rightarrow> error option \<times> 'ps world" where
  "WatchReplicationControllers c ctx rv w =
     (WatchReplicationControllers_answer c w ctx rv,
      issue (WatchReplicationControllersReq ctx rv) w)"

definition ListReplicationControllers ::
  "'ps Interface \<Rightarrow> Context \<Rightarrow> 'ps world
     \<Rightarrow> (error + 'ps ReplicationController list) \<times> 'ps world" where
  "ListReplicationControllers c ctx w =
     (ListReplicationControllers_answer c w ctx, issue (ListReplicationControllersReq ctx) w)"

subsection \<open>Goroutines behind a WaitGroup\<close>

text \<open>
  \<open>wait.Add(n)\<close>, \<open>n\<close> times \<open>go func\<close> and \<open>wait.Wait()\<close>: the caller continues
  when all \<open>n\<close> bodies have run. The runtime picks the order; \<open>sched n\<close> is the order in
  which the bodies with indices \<open>0..n-1\<close> run, and a schedule is valid when it runs
  each index exactly once. A body runs as a whole before the next one starts: each body
  here is one call of the pod control (or of the handler), and interleavings inside a
  body are not distinguished. A panic in a goroutine ends the process.
\<close>

type_synonym schedule = "nat \<Rightarrow> nat list"

definition valid_schedule :: "schedule \<Rightarrow> bool" where
  "valid_schedule sched \<longleftrightarrow> (\<forall>n. mset (sched n) = mset [0..<n])"

fun run_goroutines :: "nat list \<Rightarrow> (nat \<Rightarrow> 'w \<Rightarrow> panic + 'w) \<Rightarrow> 'w \<Rightarrow> panic + 'w" where
  "run_goroutines [] body w = Inr w"
| "run_goroutines (ix # order) body w =
     (case body ix w of Inl p \<Rightarrow> Inl p | Inr w' \<Rightarrow> run_goroutines order body w')"

subsection \<open>PodControlInterface and RealPodControl\<close>

record 'ps PodControlInterface =
  createReplica :: "Context \<Rightarrow> 'ps ReplicationController \<Rightarrow> 'ps world \<Rightarrow> 'ps world"
  deletePod :: "Context \<Rightarrow> string \<Rightarrow> 'ps world \<Rightarrow> error option \<times> 'ps world"

text \<open>\<open>labels[k] = v\<close> behind the test \<open>labels != nil\<close>: a write through the reference.\<close>

definition set_label :: "map_ref option \<Rightarrow> string \<Rightarrow> string \<Rightarrow> 'ps world \<Rightarrow> 'ps world" where
  "set_label labels k v w =
     (case labels of
        None \<Rightarrow> w
      | Some r \<Rightarrow> w\<lparr>maps := (maps w)(r := (maps w r)(k \<mapsto> v))\<rparr>)"

definition RealPodControl_createReplica ::
  "'ps Interface \<Rightarrow> Context \<Rightarrow> 'ps ReplicationController \<Rightarrow> 'ps world \<Rightarrow> 'ps world" where
  "RealPodControl_createReplica kubeClient ctx controllerSpec w =
     (let labels = Template_Labels (PodTemplate (Spec controllerSpec));
          w1 = set_label labels ''replicationController'' (ID controllerSpec) w;
          pod = \<lparr>Pod_ID = '''',
                 Pod_Labels = Template_Labels (PodTemplate (Spec controllerSpec)),
                 Pod_Spec = Template_Spec (PodTemplate (Spec controllerSpec)),
                 Pod_Status = \<lparr>Condition = ''''\<rparr>\<rparr>
      in case CreatePod kubeClient ctx pod w1 of
           (None, w2) \<Rightarrow> w2
         | (Some err, w2) \<Rightarrow> Errorf (CreateReplicaFailed err) w2)"

definition RealPodControl_deletePod ::
  "'ps Interface \<Rightarrow> Context \<Rightarrow> string \<Rightarrow> 'ps world \<Rightarrow> error option \<times> 'ps world" where
  "RealPodControl_deletePod kubeClient ctx podID w = DeletePod kubeClient ctx podID w"

definition RealPodControl :: "'ps Interface \<Rightarrow> 'ps PodControlInterface" where
  "RealPodControl kubeClient =
     \<lparr>createReplica = RealPodControl_createReplica kubeClient,
      deletePod = RealPodControl_deletePod kubeClient\<rparr>"

subsection \<open>ReplicationManager\<close>

text \<open>
  \<open>syncTime\<close> is a channel and belongs to the inputs of the watch loop below.
  \<open>syncHandler\<close> is the injectable reconciler; it runs goroutines, so it takes the schedule.
\<close>

record 'ps ReplicationManager =
  kubeClient :: "'ps Interface"
  podControl :: "'ps PodControlInterface"
  syncHandler ::
    "schedule \<Rightarrow> 'ps ReplicationController \<Rightarrow> 'ps world \<Rightarrow> panic + (error option \<times> 'ps world)"

definition filterActivePods :: "'ps Pod list \<Rightarrow> 'ps Pod list" where
  "filterActivePods pods = filter (\<lambda>p. PodTerminated \<noteq> Condition (Pod_Status p)) pods"

text \<open>
  The bodies of the two \<open>go func\<close> literals of \<open>syncReplicationController\<close>. The
  deleting body indexes \<open>filteredList\<close>; Go panics when the index is out of range, and
  the error \<open>deletePod\<close> returns is dropped.
\<close>

definition create_goroutine ::
  "'ps ReplicationManager \<Rightarrow> Context \<Rightarrow> 'ps ReplicationController
     \<Rightarrow> nat \<Rightarrow> 'ps world \<Rightarrow> panic + 'ps world" where
  "create_goroutine rm ctx controllerSpec i w =
     Inr (createReplica (podControl rm) ctx controllerSpec w)"

definition delete_goroutine ::
  "'ps ReplicationManager \<Rightarrow> Context \<Rightarrow> 'ps Pod list \<Rightarrow> nat \<Rightarrow> 'ps world \<Rightarrow> panic + 'ps world" where
  "delete_goroutine rm ctx filteredList ix w =
     (if ix < length filteredList
      then Inr (snd (deletePod (podControl rm) ctx (Pod_ID (filteredList ! ix)) w))
      else Inl IndexOutOfRange)"

definition syncReplicationController ::
  "'ps ReplicationManager \<Rightarrow> schedule \<Rightarrow> 'ps ReplicationController \<Rightarrow> 'ps world
     \<Rightarrow> panic + (error option \<times> 'ps world)" where
  "syncReplicationController rm sched controllerSpec w =
     (let s = Selector (Spec controllerSpec);
          ctx = WithNamespace NewContext (Namespace controllerSpec)
      in case ListPods (kubeClient rm) ctx s w of
           (Inl err, w1) \<Rightarrow> Inr (Some err, w1)
         | (Inr items, w1) \<Rightarrow>
             (let filteredList = filterActivePods items;
                  diff = int (length filteredList) - Replicas (Spec controllerSpec)
              in if diff < 0 then
                   (case run_goroutines (sched (nat (- diff)))
                           (create_goroutine rm ctx controllerSpec) w1 of
                      Inl p \<Rightarrow> Inl p
                    | Inr w2 \<Rightarrow> Inr (None, w2))
                 else if diff > 0 then
                   (case run_goroutines (sched (nat diff))
                           (delete_goroutine rm ctx filteredList) w1 of
                      Inl p \<Rightarrow> Inl p
                    | Inr w2 \<Rightarrow> Inr (None, w2))
                 else Inr (None, w1)))"

text \<open>
  \<open>NewReplicationManager\<close> builds the manager with a nil handler and then points the
  handler at the manager's own \<open>syncReplicationController\<close>. Calling a nil func panics.
\<close>

definition NewReplicationManager :: "'ps Interface \<Rightarrow> 'ps ReplicationManager" where
  "NewReplicationManager kubeClient' =
     (let rm = \<lparr>kubeClient = kubeClient',
                podControl = RealPodControl kubeClient',
                syncHandler = (\<lambda>sched controllerSpec w. Inl NilFunc)\<rparr>
      in rm\<lparr>syncHandler := syncReplicationController rm\<rparr>)"

definition sync_goroutine ::
  "'ps ReplicationManager \<Rightarrow> schedule \<Rightarrow> 'ps ReplicationController list
     \<Rightarrow> nat \<Rightarrow> 'ps world \<Rightarrow> panic + 'ps world" where
  "sync_goroutine rm sched controllerSpecs ix w =
     (if ix < length controllerSpecs
      then (case syncHandler rm sched (controllerSpecs ! ix) w of
              Inl p \<Rightarrow> Inl p
            | Inr (None, w') \<Rightarrow> Inr w'
            | Inr (Some err, w') \<Rightarrow> Inr (Errorf (ErrorSynchronizing err) w'))
      else Inl IndexOutOfRange)"

definition synchronize ::
  "'ps ReplicationManager \<Rightarrow> schedule \<Rightarrow> 'ps world \<Rightarrow> panic + 'ps world" where
  "synchronize rm sched w =
     (case ListReplicationControllers (kubeClient rm) NewContext w of
        (Inl err, w1) \<Rightarrow> Inr (Errorf (SynchronizationError err) w1)
      | (Inr controllerSpecs, w1) \<Rightarrow>
          run_goroutines (sched (length controllerSpecs))
            (sync_goroutine rm sched controllerSpecs) w1)"

subsection \<open>The watch loop\<close>

text \<open>
  \<open>watchControllers\<close> opens the watch with both selectors \<open>labels.Everything()\<close> at the
  version \<open>*resourceVersion\<close>; the request log keeps the context and the version.
  One iteration of \<open>for { select { ... } }\<close> receives a tick of \<open>rm.syncTime\<close>, an
  event of the watch channel, or finds the watch channel closed. The inputs of a run are
  the finite list of what the loop has received so far; when the list is used up the loop
  is waiting in \<open>select\<close>.

  \<open>cursor\<close> is \<open>*resourceVersion\<close>. \<open>dispatched\<close> is an observer added to the
  model: for every call of \<open>rm.syncHandler\<close> it records the value \<open>*resourceVersion\<close>
  had when the call was made, the controller passed and the error returned.
\<close>

datatype 'ps select_case = SyncTime | WatchEvent "'ps Event" | WatchClosed

datatype loop_exit = Returned | Waiting

record 'ps consumer =
  cursor :: uint64
  dispatched :: "(uint64 \<times> 'ps ReplicationController \<times> error option) list"
  cluster :: "'ps world"
  exit :: loop_exit

fun watchLoop ::
  "'ps ReplicationManager \<Rightarrow> schedule \<Rightarrow> 'ps select_case list \<Rightarrow> 'ps consumer
     \<Rightarrow> panic + 'ps consumer" where
  "watchLoop rm sched [] st = Inr (st\<lparr>exit := Waiting\<rparr>)"
| "watchLoop rm sched (SyncTime # inputs) st =
     (case synchronize rm sched (cluster st) of
        Inl p \<Rightarrow> Inl p
      | Inr w' \<Rightarrow> watchLoop rm sched inputs (st\<lparr>cluster := w'\<rparr>))"
| "watchLoop rm sched (WatchClosed # inputs) st = Inr (st\<lparr>exit := Returned\<rparr>)"
| "watchLoop rm sched (WatchEvent event # inputs) st =
     (case Object event of
        OtherObject kind \<Rightarrow>
          watchLoop rm sched inputs (st\<lparr>cluster := Errorf (UnexpectedObject kind) (cluster st)\<rparr>)
      | ReplicationControllerObject rc \<Rightarrow>
          (let st1 = st\<lparr>cursor := ResourceVersion rc + 1\<rparr>
           in case syncHandler rm sched rc (cluster st1) of
                Inl p \<Rightarrow> Inl p
              | Inr (err, w') \<Rightarrow>
                  watchLoop rm sched inputs
                    (st1\<lparr>dispatched := dispatched st1 @ [(cursor st1, rc, err)],
                         cluster := w'\<rparr>)))"

definition watchControllers ::
  "'ps ReplicationManager \<Rightarrow> schedule \<Rightarrow> 'ps select_case list \<Rightarrow> 'ps consumer
     \<Rightarrow> panic + 'ps consumer" where
  "watchControllers rm sched inputs st =
     (case WatchReplicationControllers (kubeClient rm) NewContext (cursor st) (cluster st) of
        (Some err, w1) \<Rightarrow>
          Inr (st\<lparr>cluster := Errorf (UnexpectedFailureToWatch err) w1, exit := Returned\<rparr>)
      | (None, w1) \<Rightarrow> watchLoop rm sched inputs (st\<lparr>cluster := w1\<rparr>))"

text \<open>
  Modelled from the spec: \<open>util.Forever\<close> is declared in pkg/util, outside src/. It is the
  ``run forever, restart on return'' supervisor: it calls the function again each time it
  returns. One list of loop inputs is given per call; a call that is still waiting for
  input is the last one.
\<close>

fun Forever ::
  "'ps ReplicationManager \<Rightarrow> schedule \<Rightarrow> 'ps select_case list list \<Rightarrow> 'ps consumer
     \<Rightarrow> panic + 'ps consumer" where
  "Forever rm sched [] st = Inr st"
| "Forever rm sched (inputs # sessions) st =
     (case watchControllers rm sched inputs st of
        Inl p \<Rightarrow> Inl p
      | Inr st' \<Rightarrow> if exit st' = Returned then Forever rm sched sessions st' else Inr st')"

text \<open>\<open>Run\<close>: the cursor starts at \<open>uint64(0)\<close>.\<close>

definition Run ::
  "'ps ReplicationManager \<Rightarrow> schedule \<Rightarrow> 'ps select_case list list \<Rightarrow> 'ps world
     \<Rightarrow> panic + 'ps consumer" where
  "Run rm sched sessions w =
     Forever rm sched sessions \<lparr>cursor = 0, dispatched = [], cluster = w, exit = Returned\<rparr>"

subsection \<open>Observations used to state the properties\<close>

text \<open>
  The controllers a list of loop inputs delivers to the loop before the watch channel
  closes, in order, whatever the kind of the event that carries them.
\<close>

fun delivered_controllers :: "'ps select_case list \<Rightarrow> 'ps ReplicationController list" where
  "delivered_controllers [] = []"
| "delivered_controllers (SyncTime # inputs) = delivered_controllers inputs"
| "delivered_controllers (WatchClosed # inputs) = []"
| "delivered_controllers (WatchEvent event # inputs) =
     (case Object event of
        OtherObject kind \<Rightarrow> delivered_controllers inputs
      | ReplicationControllerObject rc \<Rightarrow> rc # delivered_controllers inputs)"

text \<open>The values the cursor held at the successive handler calls of a run.\<close>

definition cursor_updates :: "panic + 'ps consumer \<Rightarrow> uint64 list" where
  "cursor_updates r = (case r of Inl p \<Rightarrow> [] | Inr st \<Rightarrow> map fst (dispatched st))"

subsection \<open>Concrete clusters for the examples\<close>

text \<open>
  The scenario of the specification: controller \<open>web\<close> with selector \<open>app = web\<close> and
  target 3. The pod specification is a string here. The client of \<open>flaky_cluster pods\<close>
  lists \<open>pods\<close>, refuses the create that is the third request on the log and every
  delete of pod \<open>b\<close>; the client of \<open>down_cluster\<close> fails every list.
\<close>

definition web_at :: "uint64 \<Rightarrow> int \<Rightarrow> string ReplicationController" where
  "web_at v t =
     \<lparr>ID = ''web'', Namespace = ''default'', ResourceVersion = v,
      Spec = \<lparr>Replicas = t, Selector = [''app'' \<mapsto> ''web''],
              PodTemplate = \<lparr>Template_Labels = Some 0, Template_Spec = ''nginx''\<rparr>\<rparr>\<rparr>"

definition web :: "string ReplicationController" where
  "web = web_at 42 3"

definition unit_pod :: "string \<Rightarrow> PodCondition \<Rightarrow> string Pod" where
  "unit_pod podID c =
     \<lparr>Pod_ID = podID, Pod_Labels = None, Pod_Spec = ''nginx'', Pod_Status = \<lparr>Condition = c\<rparr>\<rparr>"

definition flaky_cluster :: "string Pod list \<Rightarrow> string Interface" where
  "flaky_cluster pods =
     \<lparr>ListPods_answer = (\<lambda>w ctx s. Inr pods),
      CreatePod_answer =
        (\<lambda>w ctx pod. if length (requests w) = 2 then Some (Error ''create refused'') else None),
      DeletePod_answer =
        (\<lambda>w ctx podID. if podID = ''b'' then Some (Error ''delete refused'') else None),
      WatchReplicationControllers_answer = (\<lambda>w ctx rv. None),
      ListReplicationControllers_answer = (\<lambda>w ctx. Inr [web])\<rparr>"

definition down_cluster :: "string Interface" where
  "down_cluster =
     \<lparr>ListPods_answer = (\<lambda>w ctx s. Inl (Error ''list refused'')),
      CreatePod_answer = (\<lambda>w ctx pod. None),
      DeletePod_answer = (\<lambda>w ctx podID. None),
      WatchReplicationControllers_answer = (\<lambda>w ctx rv. None),
      ListReplicationControllers_answer = (\<lambda>w ctx. Inl (Error ''list refused''))\<rparr>"

definition empty_world :: "string world" where
  "empty_world = \<lparr>maps = (\<lambda>r. Map.empty), requests = [], glog = []\<rparr>"

definition idle :: "string consumer" where
  "idle = \<lparr>cursor = 0, dispatched = [], cluster = empty_world, exit = Returned\<rparr>"

definition newest_first :: schedule where
  "newest_first n = rev [0..<n]"

definition watch_event :: "EventType \<Rightarrow> string ReplicationController \<Rightarrow> string select_case" where
  "watch_event ty rc = WatchEvent \<lparr>Type = ty, Object = ReplicationControllerObject rc\<rparr>"

section \<open>Properties\<close>

subsection \<open>Schedules and batches of goroutines\<close>

lemma valid_schedule_length: "valid_schedule sched \<Longrightarrow> length (sched n) = n"
  unfolding valid_schedule_def by (metis mset_eq_length length_upt diff_zero)

lemma valid_schedule_set: "valid_schedule sched \<Longrightarrow> set (sched n) = {..<n}"
  unfolding valid_schedule_def by (metis mset_eq_setD atLeast_upt)

lemma valid_newest_first: "valid_schedule newest_first"
  by (simp add: valid_schedule_def newest_first_def)

lemma kubeClient_New: "kubeClient (NewReplicationManager k) = k"
  by (simp add: NewReplicationManager_def)

lemma run_goroutines_returns:
  assumes "\<And>ix w. ix \<in> set order \<Longrightarrow> \<exists>w'. body ix w = Inr w'"
  shows "\<exists>w'. run_goroutines order body w = Inr w'"
  using assms
proof (induction order arbitrary: w)
  case Nil
  then show ?case by simp
next
  case (Cons ix order)
  from Cons.prems [of ix w] obtain w1 where w1: "body ix w = Inr w1"
    by auto
  have "\<exists>w'. run_goroutines order body w1 = Inr w'"
    by (rule Cons.IH) (simp add: Cons.prems)
  with w1 show ?case by simp
qed

lemma run_goroutines_requests:
  assumes "\<And>ix w. ix \<in> set order
             \<Longrightarrow> \<exists>w'. body ix w = Inr w' \<and> requests w' = requests w @ [req ix]"
  shows "\<exists>w'. run_goroutines order body w = Inr w' \<and> requests w' = requests w @ map req order"
  using assms
proof (induction order arbitrary: w)
  case Nil
  then show ?case by simp
next
  case (Cons ix order)
  from Cons.prems [of ix w] obtain w1 where
    w1: "body ix w = Inr w1" "requests w1 = requests w @ [req ix]"
    by auto
  have "\<exists>w'. run_goroutines order body w1 = Inr w' \<and> requests w' = requests w1 @ map req order"
    by (rule Cons.IH) (simp add: Cons.prems)
  with w1 show ?case by simp
qed

lemma createReplica_requests:
  "requests (RealPodControl_createReplica k ctx spec w) =
     requests w @ [CreatePodReq ctx
        \<lparr>Pod_ID = '''', Pod_Labels = Template_Labels (PodTemplate (Spec spec)),
         Pod_Spec = Template_Spec (PodTemplate (Spec spec)),
         Pod_Status = \<lparr>Condition = ''''\<rparr>\<rparr>]"
  by (simp add: RealPodControl_createReplica_def CreatePod_def issue_def Errorf_def
      set_label_def Let_def split: option.splits)


lemma delete_goroutine_real:
  "ix < length filteredList \<Longrightarrow>
   delete_goroutine (NewReplicationManager k) ctx filteredList ix w =
     Inr (issue (DeletePodReq ctx (Pod_ID (filteredList ! ix))) w)"
  by (simp add: delete_goroutine_def NewReplicationManager_def RealPodControl_def
      RealPodControl_deletePod_def DeletePod_def)


lemma delete_batch_requests:
  assumes "\<forall>ix \<in> set order. ix < length filteredList"
  shows "\<exists>w'. run_goroutines order
                 (delete_goroutine (NewReplicationManager k) ctx filteredList) w = Inr w'
     \<and> requests w' = requests w
          @ map (\<lambda>ix. DeletePodReq ctx (Pod_ID (filteredList ! ix))) order"
  using assms run_goroutines_requests [of order
      "delete_goroutine (NewReplicationManager k) ctx filteredList"
      "\<lambda>ix. DeletePodReq ctx (Pod_ID (filteredList ! ix))" w]
  by (simp add: delete_goroutine_real issue_def)

lemma create_batch_returns:
  "\<exists>w'. run_goroutines order (create_goroutine rm ctx spec) w = Inr w'"
  by (rule run_goroutines_returns) (simp add: create_goroutine_def)

lemma delete_batch_returns:
  assumes "\<forall>ix \<in> set order. ix < length filteredList"
  shows "\<exists>w'. run_goroutines order (delete_goroutine rm ctx filteredList) w = Inr w'"
  by (rule run_goroutines_returns) (simp add: delete_goroutine_def assms)

lemma upt_nth_take:
  "n \<le> length xs \<Longrightarrow> map (\<lambda>ix. f (xs ! ix)) [0..<n] = map f (take n xs)"
  by (simp add: list_eq_iff_nth_eq)

lemma scheduled_mset:
  assumes "valid_schedule sched" and "n \<le> length xs"
  shows "mset (map (\<lambda>ix. f (xs ! ix)) (sched n)) = mset (map f (take n xs))"
proof -
  have "mset (map (\<lambda>ix. f (xs ! ix)) (sched n))
      = image_mset (\<lambda>ix. f (xs ! ix)) (mset (sched n))"
    by simp
  also have "\<dots> = image_mset (\<lambda>ix. f (xs ! ix)) (mset [0..<n])"
    using assms(1) by (simp add: valid_schedule_def)
  also have "\<dots> = mset (map (\<lambda>ix. f (xs ! ix)) [0..<n])"
    by simp
  also have "\<dots> = mset (map f (take n xs))"
    using assms(2) by (simp only: upt_nth_take)
  finally show ?thesis .
qed

subsection \<open>Reconcile: syncReplicationController\<close>




text \<open>
  C2. Too many active pods. For a controller with a non-negative target \<open>t\<close> (the data
  model's target replica count) and \<open>a > t\<close> active pods, one call returns without error
  and has issued, after the list request, exactly \<open>a - t\<close> delete requests and no create
  request. The runtime chooses the order of the requests; the pods deleted are exactly the
  first \<open>a - t\<close> pods of the filtered list, each once.
\<close>

theorem sync_too_many_deletes:
  assumes sched: "valid_schedule sched"
    and list: "ListPods_answer k w (WithNamespace NewContext (Namespace spec))
                 (Selector (Spec spec)) = Inr items"
    and nonneg: "0 \<le> Replicas (Spec spec)"
    and many: "Replicas (Spec spec) < int (length (filterActivePods items))"
  shows "\<exists>w' issued.
       syncReplicationController (NewReplicationManager k) sched spec w = Inr (None, w')
     \<and> requests w' = requests w
          @ ListPodsReq (WithNamespace NewContext (Namespace spec)) (Selector (Spec spec)) # issued
     \<and> issued = map (\<lambda>ix. DeletePodReq (WithNamespace NewContext (Namespace spec))
                               (Pod_ID (filterActivePods items ! ix)))
                   (sched (nat (int (length (filterActivePods items)) - Replicas (Spec spec))))
     \<and> mset issued =
         mset (map (\<lambda>p. DeletePodReq (WithNamespace NewContext (Namespace spec)) (Pod_ID p))
                 (take (nat (int (length (filterActivePods items)) - Replicas (Spec spec)))
                    (filterActivePods items)))
     \<and> length issued = nat (int (length (filterActivePods items)) - Replicas (Spec spec))"
proof -
  let ?ctx = "WithNamespace NewContext (Namespace spec)"
  let ?w1 = "issue (ListPodsReq ?ctx (Selector (Spec spec))) w"
  let ?fl = "filterActivePods items"
  let ?n = "nat (int (length ?fl) - Replicas (Spec spec))"
  have le: "?n \<le> length ?fl"
    using nonneg by linarith
  have len: "length (sched ?n) = ?n"
    using sched by (rule valid_schedule_length)
  have "set (sched ?n) = {..<?n}"
    using sched by (rule valid_schedule_set)
  with le have bound: "\<forall>ix \<in> set (sched ?n). ix < length ?fl"
    by auto
  from delete_batch_requests [OF bound, of k ?ctx ?w1] obtain w' where
    run: "run_goroutines (sched ?n) (delete_goroutine (NewReplicationManager k) ?ctx ?fl) ?w1
            = Inr w'"
    and req: "requests w' = requests ?w1
                @ map (\<lambda>ix. DeletePodReq ?ctx (Pod_ID (?fl ! ix))) (sched ?n)"
    by blast
  have ret: "syncReplicationController (NewReplicationManager k) sched spec w = Inr (None, w')"
    using list many run
    by (simp add: syncReplicationController_def ListPods_def kubeClient_New Let_def)
  have ms: "mset (map (\<lambda>ix. DeletePodReq ?ctx (Pod_ID (?fl ! ix))) (sched ?n))
      = mset (map (\<lambda>p. DeletePodReq ?ctx (Pod_ID p)) (take ?n ?fl))"
    using sched le by (rule scheduled_mset)
  show ?thesis
    using ret req ms len by (simp add: issue_def)
qed

lemma fixture_five_active:
  "filterActivePods
     [unit_pod ''z'' ''Terminated'', unit_pod ''a'' ''Running'', unit_pod ''b'' ''Running'',
      unit_pod ''c'' ''Running'', unit_pod ''d'' ''Running'', unit_pod ''e'' ''Running'']
   = [unit_pod ''a'' ''Running'', unit_pod ''b'' ''Running'', unit_pod ''c'' ''Running'',
      unit_pod ''d'' ''Running'', unit_pod ''e'' ''Running'']"
  by (simp add: filterActivePods_def unit_pod_def PodTerminated_def)

lemma Pod_ID_unit_pod: "Pod_ID (unit_pod podID c) = podID"
  by (simp add: unit_pod_def)

theorem sync_too_many_deletes_witness:
  "\<exists>w'. syncReplicationController
           (NewReplicationManager
              (flaky_cluster
                 [unit_pod ''z'' ''Terminated'', unit_pod ''a'' ''Running'',
                  unit_pod ''b'' ''Running'', unit_pod ''c'' ''Running'',
                  unit_pod ''d'' ''Running'', unit_pod ''e'' ''Running'']))
           newest_first web empty_world = Inr (None, w')
     \<and> requests w' =
         [ListPodsReq (Context (Some ''default'')) [''app'' \<mapsto> ''web''],
          DeletePodReq (Context (Some ''default'')) ''b'',
          DeletePodReq (Context (Some ''default'')) ''a'']"
proof -
  let ?pods = "[unit_pod ''z'' ''Terminated'', unit_pod ''a'' ''Running'',
                unit_pod ''b'' ''Running'', unit_pod ''c'' ''Running'',
                unit_pod ''d'' ''Running'', unit_pod ''e'' ''Running'']"
  have list: "ListPods_answer (flaky_cluster ?pods) empty_world
      (WithNamespace NewContext (Namespace web)) (Selector (Spec web)) = Inr ?pods"
    by (simp add: flaky_cluster_def)
  have nonneg: "0 \<le> Replicas (Spec web)"
    by (simp add: web_def web_at_def)
  have many: "Replicas (Spec web) < int (length (filterActivePods ?pods))"
    by (simp add: fixture_five_active web_def web_at_def)
  from sync_too_many_deletes [OF valid_newest_first list nonneg many] show ?thesis
    by (simp add: fixture_five_active web_def web_at_def WithNamespace_def empty_world_def
        newest_first_def Pod_ID_unit_pod numeral_2_eq_2)
qed

lemma sync_returns:
  assumes sched: "valid_schedule sched"
    and nonneg: "0 \<le> Replicas (Spec spec)"
    and list: "ListPods_answer (kubeClient rm) w (WithNamespace NewContext (Namespace spec))
                 (Selector (Spec spec)) = Inr items"
  shows "\<exists>w'. syncReplicationController rm sched spec w = Inr (None, w')"
proof -
  let ?ctx = "WithNamespace NewContext (Namespace spec)"
  let ?w1 = "issue (ListPodsReq ?ctx (Selector (Spec spec))) w"
  let ?fl = "filterActivePods items"
  let ?n = "nat (int (length ?fl) - Replicas (Spec spec))"
  let ?m = "nat (Replicas (Spec spec) - int (length ?fl))"
  have "set (sched ?n) = {..<?n}"
    using sched by (rule valid_schedule_set)
  moreover have "?n \<le> length ?fl"
    using nonneg by linarith
  ultimately have "\<forall>ix \<in> set (sched ?n). ix < length ?fl"
    by auto
  from delete_batch_returns [OF this, of rm ?ctx ?w1] obtain wd where
    d: "run_goroutines (sched ?n) (delete_goroutine rm ?ctx ?fl) ?w1 = Inr wd"
    by blast
  from create_batch_returns [of "sched ?m" rm ?ctx spec ?w1] obtain wc where
    c: "run_goroutines (sched ?m) (create_goroutine rm ?ctx spec) ?w1 = Inr wc"
    by blast
  show ?thesis
    using list c d by (simp add: syncReplicationController_def ListPods_def Let_def)
qed




text \<open>
  The second call of the example above is the scenario with a failing remediation: of the
  two creates one is refused, the refusal is logged, and the call returns nil.
\<close>

lemma sync_absorbs_create_failure:
  "syncReplicationController
     (NewReplicationManager (flaky_cluster [unit_pod ''a'' ''Running'']))
     newest_first web empty_world =
   Inr (None,
     \<lparr>maps = (\<lambda>r. Map.empty)(0 := [''replicationController'' \<mapsto> ''web'']),
      requests =
        [ListPodsReq (Context (Some ''default'')) [''app'' \<mapsto> ''web''],
         CreatePodReq (Context (Some ''default''))
           \<lparr>Pod_ID = '''', Pod_Labels = Some 0, Pod_Spec = ''nginx'',
            Pod_Status = \<lparr>Condition = ''''\<rparr>\<rparr>,
         CreatePodReq (Context (Some ''default''))
           \<lparr>Pod_ID = '''', Pod_Labels = Some 0, Pod_Spec = ''nginx'',
            Pod_Status = \<lparr>Condition = ''''\<rparr>\<rparr>],
      glog = [CreateReplicaFailed (Error ''create refused'')]\<rparr>)"
  by (simp add: syncReplicationController_def NewReplicationManager_def RealPodControl_def
      RealPodControl_createReplica_def ListPods_def CreatePod_def
      issue_def Errorf_def set_label_def create_goroutine_def
      flaky_cluster_def web_def web_at_def unit_pod_def filterActivePods_def PodTerminated_def
      empty_world_def newest_first_def WithNamespace_def NewContext_def Let_def numeral_2_eq_2)

subsection \<open>Remediation: the batches and createReplica\<close>



text \<open>
  The scenario of the specification: in a batch of three creations the third call is
  refused; all three requests are issued, the refusal is one line of the error log, and
  the batch returns.
\<close>

lemma batch_of_three_one_failure:
  "run_goroutines (newest_first 3)
     (create_goroutine (NewReplicationManager (flaky_cluster [])) NewContext web) empty_world =
   Inr \<lparr>maps = (\<lambda>r. Map.empty)(0 := [''replicationController'' \<mapsto> ''web'']),
        requests =
          [CreatePodReq NewContext
             \<lparr>Pod_ID = '''', Pod_Labels = Some 0, Pod_Spec = ''nginx'',
              Pod_Status = \<lparr>Condition = ''''\<rparr>\<rparr>,
           CreatePodReq NewContext
             \<lparr>Pod_ID = '''', Pod_Labels = Some 0, Pod_Spec = ''nginx'',
              Pod_Status = \<lparr>Condition = ''''\<rparr>\<rparr>,
           CreatePodReq NewContext
             \<lparr>Pod_ID = '''', Pod_Labels = Some 0, Pod_Spec = ''nginx'',
              Pod_Status = \<lparr>Condition = ''''\<rparr>\<rparr>],
        glog = [CreateReplicaFailed (Error ''create refused'')]\<rparr>"
  by (simp add: NewReplicationManager_def RealPodControl_def
      RealPodControl_createReplica_def CreatePod_def
      issue_def Errorf_def set_label_def create_goroutine_def
      flaky_cluster_def web_def web_at_def
      empty_world_def newest_first_def Let_def numeral_3_eq_3)

text \<open>
  C8. For a controller with a non-negative target, every index the deletion branch uses
  is below the length of the filtered list, for every valid schedule, and the call does
  not end in an index-out-of-range panic.
\<close>

theorem delete_index_in_bounds:
  assumes sched: "valid_schedule sched"
    and nonneg: "0 \<le> Replicas (Spec spec)"
  shows "(\<forall>filteredList. 0 < int (length filteredList) - Replicas (Spec spec) \<longrightarrow>
            (\<forall>ix \<in> set (sched (nat (int (length filteredList) - Replicas (Spec spec)))).
               ix < length filteredList))
     \<and> syncReplicationController rm sched spec w \<noteq> Inl IndexOutOfRange"
proof (intro conjI allI impI)
  fix filteredList :: "'b list"
  have "set (sched (nat (int (length filteredList) - Replicas (Spec spec))))
      = {..<nat (int (length filteredList) - Replicas (Spec spec))}"
    using sched by (rule valid_schedule_set)
  moreover have "nat (int (length filteredList) - Replicas (Spec spec)) \<le> length filteredList"
    using nonneg by linarith
  ultimately show "\<forall>ix \<in> set (sched (nat (int (length filteredList) - Replicas (Spec spec)))).
      ix < length filteredList"
    by auto
next
  show "syncReplicationController rm sched spec w \<noteq> Inl IndexOutOfRange"
  proof (cases "ListPods_answer (kubeClient rm) w (WithNamespace NewContext (Namespace spec))
                  (Selector (Spec spec))")
    case (Inl err)
    then show ?thesis
      by (simp add: syncReplicationController_def ListPods_def Let_def)
  next
    case (Inr items)
    from sync_returns [OF sched nonneg Inr] show ?thesis
      by auto
  qed
qed

theorem delete_index_in_bounds_witness:
  "list_all (\<lambda>ix. ix < 5) (newest_first 2)
   \<and> syncReplicationController
        (NewReplicationManager
           (flaky_cluster
              [unit_pod ''z'' ''Terminated'', unit_pod ''a'' ''Running'',
               unit_pod ''b'' ''Running'', unit_pod ''c'' ''Running'',
               unit_pod ''d'' ''Running'', unit_pod ''e'' ''Running'']))
        newest_first web empty_world \<noteq> Inl IndexOutOfRange"
proof -
  have nonneg: "0 \<le> Replicas (Spec web)"
    by (simp add: web_def web_at_def)
  note bounds = delete_index_in_bounds [OF valid_newest_first nonneg]
  from bounds [THEN conjunct1, THEN spec,
      of "[unit_pod ''a'' ''Running'', unit_pod ''b'' ''Running'', unit_pod ''c'' ''Running'',
           unit_pod ''d'' ''Running'', unit_pod ''e'' ''Running'']"]
  have "list_all (\<lambda>ix. ix < 5) (newest_first 2)"
    by (simp add: web_def web_at_def list_all_iff eval_nat_numeral)
  with bounds [THEN conjunct2] show ?thesis
    by blast
qed

text \<open>
  The hypothesis on the target is needed: with target \<open>-1\<close> and no pod the deletion branch
  reads index 0 of an empty list.
\<close>

lemma negative_target_panics:
  "syncReplicationController (NewReplicationManager (flaky_cluster []))
     newest_first (web_at 42 (- 1)) empty_world = Inl IndexOutOfRange"
  by (simp add: syncReplicationController_def NewReplicationManager_def RealPodControl_def
      ListPods_def issue_def delete_goroutine_def flaky_cluster_def web_at_def
      filterActivePods_def empty_world_def newest_first_def Let_def)

text \<open>
  C9. \<open>createReplica\<close> writes through the template's label map. When the map is not nil,
  the map object the controller refers to holds \<open>replicationController\<close> mapped to the
  controller's ID afterwards and is otherwise as before, no other map object changes, and
  the write precedes the create: the client answers the create request in the state that
  already holds the label. The caller's controller refers to the same map object, so it
  sees the write; the map differs from before unless it already held that entry.
\<close>

theorem createReplica_sets_label:
  assumes "Template_Labels (PodTemplate (Spec spec)) = Some r"
  shows "maps (RealPodControl_createReplica k ctx spec w) r
           = (maps w r)(''replicationController'' \<mapsto> ID spec)
     \<and> (\<forall>r'. r' \<noteq> r \<longrightarrow> maps (RealPodControl_createReplica k ctx spec w) r' = maps w r')
     \<and> (maps w r ''replicationController'' \<noteq> Some (ID spec)
          \<longrightarrow> maps (RealPodControl_createReplica k ctx spec w) r \<noteq> maps w r)
     \<and> requests (RealPodControl_createReplica k ctx spec w)
         = requests w @ [CreatePodReq ctx
              \<lparr>Pod_ID = '''', Pod_Labels = Some r,
               Pod_Spec = Template_Spec (PodTemplate (Spec spec)),
               Pod_Status = \<lparr>Condition = ''''\<rparr>\<rparr>]
     \<and> glog (RealPodControl_createReplica k ctx spec w)
         = glog w @ (case CreatePod_answer k
                (w\<lparr>maps := (maps w)(r := (maps w r)(''replicationController'' \<mapsto> ID spec))\<rparr>)
                ctx
                \<lparr>Pod_ID = '''', Pod_Labels = Some r,
                 Pod_Spec = Template_Spec (PodTemplate (Spec spec)),
                 Pod_Status = \<lparr>Condition = ''''\<rparr>\<rparr> of
              None \<Rightarrow> [] | Some err \<Rightarrow> [CreateReplicaFailed err])"
proof -
  have m: "maps (RealPodControl_createReplica k ctx spec w)
      = (maps w)(r := (maps w r)(''replicationController'' \<mapsto> ID spec))"
    using assms
    by (simp add: RealPodControl_createReplica_def CreatePod_def issue_def Errorf_def
        set_label_def Let_def split: option.splits)
  have changed: "maps w r ''replicationController'' \<noteq> Some (ID spec)
      \<Longrightarrow> (maps w r)(''replicationController'' \<mapsto> ID spec) \<noteq> maps w r"
    by (metis fun_upd_same)
  have g: "glog (RealPodControl_createReplica k ctx spec w)
         = glog w @ (case CreatePod_answer k
                (w\<lparr>maps := (maps w)(r := (maps w r)(''replicationController'' \<mapsto> ID spec))\<rparr>)
                ctx
                \<lparr>Pod_ID = '''', Pod_Labels = Some r,
                 Pod_Spec = Template_Spec (PodTemplate (Spec spec)),
                 Pod_Status = \<lparr>Condition = ''''\<rparr>\<rparr> of
              None \<Rightarrow> [] | Some err \<Rightarrow> [CreateReplicaFailed err])"
    using assms
    by (simp add: RealPodControl_createReplica_def CreatePod_def issue_def Errorf_def
        set_label_def Let_def split: option.splits)
  show ?thesis
    using assms changed g by (simp add: m createReplica_requests)
qed

theorem createReplica_sets_label_witness:
  "Template_Labels (PodTemplate (Spec web)) = Some 0
   \<and> maps empty_world 0 = Map.empty
   \<and> maps (RealPodControl_createReplica (flaky_cluster []) NewContext web empty_world) 0
       = [''replicationController'' \<mapsto> ''web'']
   \<and> maps (RealPodControl_createReplica (flaky_cluster []) NewContext web empty_world) 0
       \<noteq> maps empty_world 0"
proof -
  have l: "Template_Labels (PodTemplate (Spec web)) = Some 0"
    by (simp add: web_def web_at_def)
  have fresh: "maps empty_world 0 ''replicationController'' \<noteq> Some (ID web)"
    by (simp add: empty_world_def)
  from createReplica_sets_label [OF l, of "flaky_cluster []" NewContext empty_world] fresh l
  show ?thesis
    by (simp add: web_def web_at_def empty_world_def)
qed

subsection \<open>The watch loop and the resumption cursor\<close>

lemma watchLoop_dispatched:
  "watchLoop rm sched inputs st = Inr st' \<Longrightarrow>
     \<exists>errs. length errs = length (delivered_controllers inputs)
       \<and> dispatched st' = dispatched st
           @ map (\<lambda>(rc, err). (ResourceVersion rc + 1, rc, err))
               (zip (delivered_controllers inputs) errs)"
proof (induction rm sched inputs st rule: watchLoop.induct)
  case (1 rm sched st)
  then show ?case by auto
next
  case (2 rm sched inputs st)
  then show ?case by (auto split: sum.splits)
next
  case (3 rm sched inputs st)
  then show ?case by auto
next
  case (4 rm sched event inputs st)
  show ?case
  proof (cases "Object event")
    case (OtherObject kind)
    with 4 show ?thesis by auto
  next
    case (ReplicationControllerObject rc)
    let ?st1 = "st\<lparr>cursor := ResourceVersion rc + 1\<rparr>"
    from "4.prems" ReplicationControllerObject obtain err w' where
      h: "syncHandler rm sched rc (cluster st) = Inr (err, w')"
      and run: "watchLoop rm sched inputs
          (?st1\<lparr>dispatched := dispatched ?st1 @ [(cursor ?st1, rc, err)], cluster := w'\<rparr>)
            = Inr st'"
      by (auto simp add: Let_def split: sum.splits prod.splits)
    from h have h': "syncHandler rm sched rc (cluster ?st1) = Inr (err, w')"
      by simp
    from "4.IH"(1) [OF ReplicationControllerObject refl h' refl run]
    obtain errs where
      "length errs = length (delivered_controllers inputs)"
      and "dispatched st' = (dispatched st @ [(ResourceVersion rc + 1, rc, err)])
           @ map (\<lambda>(rc, err). (ResourceVersion rc + 1, rc, err))
               (zip (delivered_controllers inputs) errs)"
      by auto
    then have "length (err # errs) = length (delivered_controllers (WatchEvent event # inputs))
       \<and> dispatched st' = dispatched st
           @ map (\<lambda>(rc, err). (ResourceVersion rc + 1, rc, err))
               (zip (delivered_controllers (WatchEvent event # inputs)) (err # errs))"
      using ReplicationControllerObject by simp
    then show ?thesis by blast
  qed
qed

lemma watchLoop_cursor:
  "watchLoop rm sched inputs st = Inr st' \<Longrightarrow>
     cursor st' =
       last (cursor st # map (\<lambda>rc. ResourceVersion rc + 1) (delivered_controllers inputs))"
proof (induction rm sched inputs st rule: watchLoop.induct)
  case (1 rm sched st)
  then show ?case by auto
next
  case (2 rm sched inputs st)
  then show ?case by (auto split: sum.splits)
next
  case (3 rm sched inputs st)
  then show ?case by auto
next
  case (4 rm sched event inputs st)
  then show ?case
    by (cases "Object event") (auto simp add: Let_def split: sum.splits prod.splits)
qed

lemma watchLoop_handled:
  assumes "watchLoop rm sched inputs st = Inr st'"
  shows "map (\<lambda>(c, rc, err). (c, rc)) (drop (length (dispatched st)) (dispatched st'))
       = map (\<lambda>rc. (ResourceVersion rc + 1, rc)) (delivered_controllers inputs)"
proof -
  from watchLoop_dispatched [OF assms] obtain errs where
    len: "length errs = length (delivered_controllers inputs)"
    and d: "dispatched st' = dispatched st
           @ map (\<lambda>(rc, err). (ResourceVersion rc + 1, rc, err))
               (zip (delivered_controllers inputs) errs)"
    by blast
  have "map (\<lambda>(c, rc, err). (c, rc)) (map (\<lambda>(rc, err). (ResourceVersion rc + 1, rc, err))
               (zip (delivered_controllers inputs) errs))
     = map (\<lambda>rc. (ResourceVersion rc + 1, rc))
         (map fst (zip (delivered_controllers inputs) errs))"
    by (simp add: case_prod_beta)
  also have "\<dots> = map (\<lambda>rc. (ResourceVersion rc + 1, rc)) (delivered_controllers inputs)"
    using len by simp
  finally show ?thesis
    using d by simp
qed

lemma reconnect_request:
  "\<exists>st''. watchControllers rm sched [] st = Inr st''
     \<and> requests (cluster st'')
         = requests (cluster st) @ [WatchReplicationControllersReq NewContext (cursor st)]"
  by (cases "WatchReplicationControllers_answer (kubeClient rm) (cluster st) NewContext (cursor st)")
     (simp_all add: watchControllers_def WatchReplicationControllers_def issue_def Errorf_def)




text \<open>
  The scenario of the specification under the supervisor: the stream delivers the
  controller at version 42 and closes; the second call of \<open>watchControllers\<close> asks for a
  watch from version 43, although the reconciliation in between failed.
\<close>

lemma reconnect_from_43:
  "Run (NewReplicationManager down_cluster) newest_first
     [[watch_event Modified web, WatchClosed], []] empty_world =
   Inr \<lparr>cursor = 43, dispatched = [(43, web, Some (Error ''list refused''))],
        cluster = \<lparr>maps = (\<lambda>r. Map.empty),
                   requests = [WatchReplicationControllersReq NewContext 0,
                               ListPodsReq (Context (Some ''default'')) [''app'' \<mapsto> ''web''],
                               WatchReplicationControllersReq NewContext 43],
                   glog = []\<rparr>,
        exit = Waiting\<rparr>"
  by (simp add: Run_def watchControllers_def WatchReplicationControllers_def
      syncReplicationController_def NewReplicationManager_def
      ListPods_def issue_def down_cluster_def web_def web_at_def watch_event_def
      empty_world_def WithNamespace_def NewContext_def Let_def)

lemma word_succ_less: "a \<le> b \<Longrightarrow> b \<noteq> - 1 \<Longrightarrow> a < b + 1" for a b :: uint64
  using inc_less_eq_iff by fastforce

lemma word_succ_mono: "a < b \<Longrightarrow> b \<noteq> - 1 \<Longrightarrow> a + 1 < b + 1" for a b :: uint64
  by (meson inc_less_eq_iff order_le_less_trans word_le_less_eq)

lemma increasing_successors:
  fixes c :: uint64
  assumes "sorted_wrt (<) vs" and "\<forall>v \<in> set vs. c \<le> v \<and> v \<noteq> - 1"
  shows "sorted_wrt (<) (c # map (\<lambda>v. v + 1) vs)"
proof -
  have "sorted_wrt (\<lambda>x y. x + 1 < y + 1) vs"
    using assms by (auto intro: sorted_wrt_mono_rel [of vs "(<)"] word_succ_mono)
  then have "sorted_wrt (<) (map (\<lambda>v. v + 1) vs)"
    by (simp add: sorted_wrt_map)
  moreover have "\<forall>v \<in> set vs. c < v + 1"
    using assms(2) by (auto intro: word_succ_less)
  ultimately show ?thesis
    by simp
qed

text \<open>
  C5, as the code has it. Every update writes the delivered controller's resource
  version plus one (in \<open>uint64\<close>), whatever the cursor held. So the cursor increases
  strictly over the updates of a run whenever the delivered resource versions increase
  strictly, none of them is below the cursor the run starts with, and none is the largest
  \<open>uint64\<close>.
\<close>

theorem cursor_increases_with_versions:
  assumes run: "watchLoop rm sched inputs st = Inr st'"
    and inc: "sorted_wrt (<) (map ResourceVersion (delivered_controllers inputs))"
    and range: "\<forall>rc \<in> set (delivered_controllers inputs).
                  cursor st \<le> ResourceVersion rc \<and> ResourceVersion rc \<noteq> - 1"
  shows "map fst (drop (length (dispatched st)) (dispatched st'))
           = map (\<lambda>rc. ResourceVersion rc + 1) (delivered_controllers inputs)
     \<and> sorted_wrt (<) (cursor st # map fst (drop (length (dispatched st)) (dispatched st')))"
proof -
  have "map fst (map (\<lambda>(c, rc, err). (c, rc)) (drop (length (dispatched st)) (dispatched st')))
      = map fst (map (\<lambda>rc. (ResourceVersion rc + 1, rc)) (delivered_controllers inputs))"
    by (simp only: watchLoop_handled [OF run])
  then have upd: "map fst (drop (length (dispatched st)) (dispatched st'))
      = map (\<lambda>rc. ResourceVersion rc + 1) (delivered_controllers inputs)"
    by (simp add: case_prod_beta comp_def)
  have "sorted_wrt (<) (cursor st
      # map (\<lambda>v. v + 1) (map ResourceVersion (delivered_controllers inputs)))"
    using inc range by (intro increasing_successors) auto
  then show ?thesis
    by (simp add: upd comp_def)
qed

lemma run_versions_5_7:
  "watchLoop (NewReplicationManager (flaky_cluster [])) newest_first
     [watch_event Modified (web_at 5 0), watch_event Modified (web_at 7 0)] idle =
   Inr \<lparr>cursor = 8,
        dispatched = [(6, web_at 5 0, None), (8, web_at 7 0, None)],
        cluster = \<lparr>maps = (\<lambda>r. Map.empty),
                   requests = [ListPodsReq (Context (Some ''default'')) [''app'' \<mapsto> ''web''],
                               ListPodsReq (Context (Some ''default'')) [''app'' \<mapsto> ''web'']],
                   glog = []\<rparr>,
        exit = Waiting\<rparr>"
  by (simp add: syncReplicationController_def NewReplicationManager_def
      ListPods_def issue_def flaky_cluster_def web_at_def watch_event_def idle_def
      filterActivePods_def empty_world_def WithNamespace_def NewContext_def Let_def)

theorem cursor_increases_with_versions_witness:
  "cursor_updates
     (watchLoop (NewReplicationManager (flaky_cluster [])) newest_first
        [watch_event Modified (web_at 5 0), watch_event Modified (web_at 7 0)] idle) = [6, 8]
   \<and> sorted_wrt (<)
     (cursor idle # cursor_updates
       (watchLoop (NewReplicationManager (flaky_cluster [])) newest_first
          [watch_event Modified (web_at 5 0), watch_event Modified (web_at 7 0)] idle))"
proof -
  have d: "delivered_controllers
      [watch_event Modified (web_at 5 0), watch_event Modified (web_at 7 0)]
        = [web_at 5 0, web_at 7 0]"
    by (simp add: watch_event_def)
  have inc: "sorted_wrt (<) (map ResourceVersion (delivered_controllers
      [watch_event Modified (web_at 5 0), watch_event Modified (web_at 7 0)]))"
    unfolding d by (simp add: web_at_def)
  have range: "\<forall>rc \<in> set (delivered_controllers
      [watch_event Modified (web_at 5 0), watch_event Modified (web_at 7 0)]).
        cursor idle \<le> ResourceVersion rc \<and> ResourceVersion rc \<noteq> - 1"
    unfolding d by (simp add: web_at_def idle_def)
  have fresh: "dispatched idle = []"
    by (simp add: idle_def)
  have upd: "cursor_updates
     (watchLoop (NewReplicationManager (flaky_cluster [])) newest_first
        [watch_event Modified (web_at 5 0), watch_event Modified (web_at 7 0)] idle) = [6, 8]"
    by (simp add: run_versions_5_7 cursor_updates_def)
  from cursor_increases_with_versions [OF run_versions_5_7 inc range, THEN conjunct2]
  have "sorted_wrt (<) (cursor idle # [6, 8])"
    by (simp add: fresh)
  then show ?thesis
    by (simp add: upd)
qed

text \<open>
  C5 as stated fails: the stream delivers version 5 and then version 3; the cursor is 6
  after the first update and 4 after the second.
\<close>

theorem cursor_decreases_counterexample:
  "cursor_updates
     (watchLoop (NewReplicationManager (flaky_cluster [])) newest_first
        [watch_event Modified (web_at 5 0), watch_event Modified (web_at 3 0)] idle) = [6, 4]
   \<and> \<not> sorted_wrt (<)
     (cursor idle # cursor_updates
       (watchLoop (NewReplicationManager (flaky_cluster [])) newest_first
          [watch_event Modified (web_at 5 0), watch_event Modified (web_at 3 0)] idle))"
  by (simp add: cursor_updates_def syncReplicationController_def NewReplicationManager_def
      ListPods_def issue_def flaky_cluster_def web_at_def watch_event_def idle_def
      filterActivePods_def empty_world_def WithNamespace_def NewContext_def Let_def)




text \<open>
  C10. An event whose object is not a replication controller is logged and skipped: the
  loop goes on with the cursor and the handler calls as they were. The cursor of a run
  that delivers no controller is the cursor it started with, and the next call of
  \<open>watchControllers\<close> asks for a watch from that same version again.
\<close>

theorem other_object_skipped:
  assumes other: "Object event = OtherObject kind"
  shows "watchLoop rm sched (WatchEvent event # inputs) st
           = watchLoop rm sched inputs
               (st\<lparr>cluster := Errorf (UnexpectedObject kind) (cluster st)\<rparr>)
     \<and> watchLoop rm sched [WatchEvent event, WatchClosed] st
           = Inr (st\<lparr>cluster := Errorf (UnexpectedObject kind) (cluster st),
                      exit := Returned\<rparr>)
     \<and> (\<exists>st''. watchControllers rm sched []
                  (st\<lparr>cluster := Errorf (UnexpectedObject kind) (cluster st),
                       exit := Returned\<rparr>) = Inr st''
           \<and> requests (cluster st'')
               = requests (cluster st) @ [WatchReplicationControllersReq NewContext (cursor st)])
     \<and> (\<forall>inputs' st1 st1'. watchLoop rm sched inputs' st1 = Inr st1'
           \<and> delivered_controllers inputs' = []
          \<longrightarrow> cursor st1' = cursor st1 \<and> dispatched st1' = dispatched st1)"
proof -
  have skip: "watchLoop rm sched (WatchEvent event # inputs) st
           = watchLoop rm sched inputs
               (st\<lparr>cluster := Errorf (UnexpectedObject kind) (cluster st)\<rparr>)" for inputs
    using other by simp
  have closed: "watchLoop rm sched [WatchEvent event, WatchClosed] st
           = Inr (st\<lparr>cluster := Errorf (UnexpectedObject kind) (cluster st),
                      exit := Returned\<rparr>)"
    using other by simp
  from reconnect_request [of rm sched
      "st\<lparr>cluster := Errorf (UnexpectedObject kind) (cluster st), exit := Returned\<rparr>"]
  have again: "\<exists>st''. watchControllers rm sched []
                  (st\<lparr>cluster := Errorf (UnexpectedObject kind) (cluster st),
                       exit := Returned\<rparr>) = Inr st''
           \<and> requests (cluster st'')
               = requests (cluster st) @ [WatchReplicationControllersReq NewContext (cursor st)]"
    by (simp add: Errorf_def)
  have only: "cursor st1' = cursor st1 \<and> dispatched st1' = dispatched st1"
    if "watchLoop rm sched inputs' st1 = Inr st1'" and "delivered_controllers inputs' = []"
    for inputs' st1 st1'
    using watchLoop_cursor [OF that(1)] watchLoop_dispatched [OF that(1)] that(2)
    by simp
  from skip closed again only show ?thesis
    by blast
qed

theorem other_object_skipped_witness:
  "watchLoop (NewReplicationManager (flaky_cluster [])) newest_first
     [WatchEvent \<lparr>Type = Added, Object = OtherObject ''Pod''\<rparr>, WatchClosed]
     (idle\<lparr>cursor := 7\<rparr>)
   = Inr \<lparr>cursor = 7, dispatched = [],
          cluster = \<lparr>maps = (\<lambda>r. Map.empty), requests = [],
                     glog = [UnexpectedObject ''Pod'']\<rparr>,
          exit = Returned\<rparr>"
proof -
  have other: "Object \<lparr>Type = Added, Object = OtherObject ''Pod''\<rparr> = OtherObject ''Pod''"
    by simp
  from other_object_skipped [OF other, THEN conjunct2, THEN conjunct1,
      of "NewReplicationManager (flaky_cluster [])" newest_first "idle\<lparr>cursor := 7\<rparr>"]
  show ?thesis
    by (simp add: idle_def empty_world_def Errorf_def)
qed

end
